theory Spec2Isabelle
  imports Complex_Main
begin

section \<open>Values of the scripting language\<close>

text \<open>
  The two screens (\<^verbatim>\<open>Login.jsx\<close> and the registration component) handle values
  whose type is only known at run time: the body of a server reply is whatever the
  server sent, and the \<^verbatim>\<open>error\<close> state cell receives the \<^verbatim>\<open>detail\<close> of that body
  as it is. Values are therefore a datatype. Numbers are rationals: only whether a
  number is zero is ever observed. An object is the list of its properties, with
  distinct keys.
\<close>

datatype js_value =
    JUndefined
  | JNull
  | JBool bool
  | JNum rat
  | JStr string
  | JArr "js_value list"
  | JObj "(string \<times> js_value) list"

text \<open>The condition of an \<^verbatim>\<open>if\<close>: the falsy values are \<^verbatim>\<open>undefined\<close>, \<^verbatim>\<open>null\<close>,
  \<^verbatim>\<open>false\<close>, zero and the empty string.\<close>

fun truthy :: "js_value \<Rightarrow> bool" where
  "truthy JUndefined = False"
| "truthy JNull = False"
| "truthy (JBool b) = b"
| "truthy (JNum n) = (n \<noteq> 0)"
| "truthy (JStr s) = (s \<noteq> [])"
| "truthy (JArr xs) = True"
| "truthy (JObj kvs) = True"

text \<open>\<^verbatim>\<open>v?.detail\<close>: an object yields its property or \<^verbatim>\<open>undefined\<close>; \<^verbatim>\<open>null\<close> and
  \<^verbatim>\<open>undefined\<close> short-circuit to \<^verbatim>\<open>undefined\<close>; booleans, numbers, strings and arrays
  have no property of that name.\<close>

fun opt_detail :: "js_value \<Rightarrow> js_value" where
  "opt_detail (JObj kvs) = (case map_of kvs ''detail'' of Some v \<Rightarrow> v | None \<Rightarrow> JUndefined)"
| "opt_detail v = JUndefined"

section \<open>The request collaborator\<close>

record http_response =
  status :: nat
  data :: js_value

text \<open>What comes back for one request: nothing at all (the network failed), or a reply.\<close>

datatype reply = NoResponse | Response http_response

text \<open>The error object that a rejected request carries; \<^verbatim>\<open>err.response\<close> is absent
  after a network failure.\<close>

record axios_error =
  response :: "http_response option"

definition is_2xx :: "http_response \<Rightarrow> bool" where
  "is_2xx r = (200 \<le> status r \<and> status r < 300)"

text \<open>\<^verbatim>\<open>await axios.post(url, body)\<close> with the client's default status check: a reply
  with a status from 200 to 299 is the value of the expression, every other reply and
  a network failure are thrown.\<close>

definition axios_post :: "reply \<Rightarrow> axios_error + http_response" where
  "axios_post rp =
     (case rp of
        NoResponse \<Rightarrow> Inl \<lparr>response = None\<rparr>
      | Response r \<Rightarrow> if is_2xx r then Inr r else Inl \<lparr>response = Some r\<rparr>)"

text \<open>\<^verbatim>\<open>err.response?.data?.detail\<close>\<close>

definition err_detail :: "axios_error \<Rightarrow> js_value" where
  "err_detail err = (case response err of None \<Rightarrow> JUndefined | Some r \<Rightarrow> opt_detail (data r))"

section \<open>What a handler can catch\<close>

text \<open>
  Two calls inside the \<^verbatim>\<open>try\<close> blocks can throw: the request, with the error object
  above, and \<^verbatim>\<open>localStorage.setItem\<close>, which throws a \<^verbatim>\<open>DOMException\<close> when the
  quota is exceeded or the storage is not available to the page.
\<close>

datatype dom_exception = QuotaExceededError | SecurityError

datatype thrown = RequestFailed axios_error | StorageFailed dom_exception

text \<open>\<^verbatim>\<open>err.response?.data?.detail\<close> on whatever was caught: a \<^verbatim>\<open>DOMException\<close> has no
  \<^verbatim>\<open>response\<close>.\<close>

fun thrown_detail :: "thrown \<Rightarrow> js_value" where
  "thrown_detail (RequestFailed err) = err_detail err"
| "thrown_detail (StorageFailed e) = JUndefined"

section \<open>State and effects\<close>

text \<open>
  What a screen can observe and change: its three state cells (\<^verbatim>\<open>userId\<close>,
  \<^verbatim>\<open>password\<close>, \<^verbatim>\<open>error\<close>), the browser's local storage, the current route of the
  router and the alerts shown so far. Whether the storage takes a write is the
  browser's decision, from the key and the value: \<open>storage_refuses w k v\<close> is the
  exception that \<^verbatim>\<open>setItem(k, v)\<close> throws in \<open>w\<close>, if it throws.
\<close>

record world =
  userId :: string
  password :: string
  error :: js_value
  storage :: "string \<rightharpoonup> string"
  storage_refuses :: "string \<Rightarrow> string \<Rightarrow> dom_exception option"
  route :: string
  alerts :: "string list"

text \<open>The calls a handler makes, in the order it makes them.\<close>

datatype effect =
    PreventDefault
  | SetUserId string
  | SetPassword string
  | SetError js_value
  | HttpPost string "(string \<times> js_value) list"
  | SetItem string string
  | Navigate string
  | Alert string

fun apply_effect :: "effect \<Rightarrow> world \<Rightarrow> world" where
  "apply_effect PreventDefault w = w"
| "apply_effect (SetUserId v) w = w\<lparr>userId := v\<rparr>"
| "apply_effect (SetPassword v) w = w\<lparr>password := v\<rparr>"
| "apply_effect (SetError v) w = w\<lparr>error := v\<rparr>"
| "apply_effect (HttpPost url body) w = w"
| "apply_effect (SetItem k v) w = w\<lparr>storage := (storage w)(k \<mapsto> v)\<rparr>"
| "apply_effect (Navigate r) w = w\<lparr>route := r\<rparr>"
| "apply_effect (Alert m) w = w\<lparr>alerts := alerts w @ [m]\<rparr>"

fun run :: "world \<Rightarrow> effect list \<Rightarrow> world" where
  "run w [] = w"
| "run w (e # es) = run (apply_effect e w) es"

text \<open>The requests and the storage writes among a sequence of effects.\<close>

fun posts :: "effect list \<Rightarrow> (string \<times> (string \<times> js_value) list) list" where
  "posts [] = []"
| "posts (HttpPost url body # es) = (url, body) # posts es"
| "posts (e # es) = posts es"

fun storage_writes :: "effect list \<Rightarrow> (string \<times> string) list" where
  "storage_writes [] = []"
| "storage_writes (SetItem k v # es) = (k, v) # storage_writes es"
| "storage_writes (e # es) = storage_writes es"

text \<open>How a block of statements ends: it runs to its end, or it throws.\<close>

datatype 'e completion = Returned | Threw 'e

type_synonym 'e block = "effect list \<times> 'e completion"

definition and_then :: "'e block \<Rightarrow> 'e block \<Rightarrow> 'e block" where
  "and_then first second =
     (case first of
        (es, Returned) \<Rightarrow> (case second of (es', c) \<Rightarrow> (es @ es', c))
      | (es, Threw e) \<Rightarrow> (es, Threw e))"

definition catching :: "'e block \<Rightarrow> ('e \<Rightarrow> 'e block) \<Rightarrow> 'e block" where
  "catching body handler =
     (case body of
        (es, Returned) \<Rightarrow> (es, Returned)
      | (es, Threw e) \<Rightarrow> (case handler e of (es', c) \<Rightarrow> (es @ es', c)))"

text \<open>\<^verbatim>\<open>localStorage.setItem(k, v)\<close>: the write, or the exception and no write.\<close>

definition setItem :: "world \<Rightarrow> string \<Rightarrow> string \<Rightarrow> thrown block" where
  "setItem w k v =
     (case storage_refuses w k v of
        Some e \<Rightarrow> ([], Threw (StorageFailed e))
      | None \<Rightarrow> ([SetItem k v], Returned))"

section \<open>The login screen\<close>

definition login_url :: string where
  "login_url = ''http://127.0.0.1:8000/login''"

text \<open>\<^verbatim>\<open>{ user_id: userId, password }\<close>, from the state cells the handler closed over.\<close>

definition credentials :: "world \<Rightarrow> (string \<times> js_value) list" where
  "credentials w = [(''user_id'', JStr (userId w)), (''password'', JStr (password w))]"

text \<open>The \<^verbatim>\<open>try\<close> block: the request, then the storage write, then the navigation;
  the first of them that throws ends the block.\<close>

definition login_body :: "world \<Rightarrow> reply \<Rightarrow> thrown block" where
  "login_body w rp =
     (case axios_post rp of
        Inl err \<Rightarrow> ([HttpPost login_url (credentials w)], Threw (RequestFailed err))
      | Inr r \<Rightarrow>
          and_then ([HttpPost login_url (credentials w)], Returned)
            (and_then (setItem w ''userId'' (userId w))
               ([Navigate ''/profile''], Returned)))"

definition login_catch :: "thrown \<Rightarrow> thrown block" where
  "login_catch err =
     (if truthy (thrown_detail err) then ([SetError (thrown_detail err)], Returned)
      else ([SetError (JStr ''Login failed.'')], Returned))"

definition handleLogin :: "world \<Rightarrow> reply \<Rightarrow> thrown block" where
  "handleLogin w rp =
     and_then ([PreventDefault, SetError (JStr [])], Returned)
       (catching (login_body w rp) login_catch)"

section \<open>The registration screen\<close>

definition register_url :: string where
  "register_url = ''http://127.0.0.1:8000/register''"

definition register_body :: "world \<Rightarrow> reply \<Rightarrow> thrown block" where
  "register_body w rp =
     (case axios_post rp of
        Inl err \<Rightarrow> ([HttpPost register_url (credentials w)], Threw (RequestFailed err))
      | Inr r \<Rightarrow>
          ([HttpPost register_url (credentials w),
            Alert ''Registration successful! Please log in.'',
            Navigate ''/''], Returned))"

definition register_catch :: "thrown \<Rightarrow> thrown block" where
  "register_catch err =
     (if truthy (thrown_detail err) then ([SetError (thrown_detail err)], Returned)
      else ([SetError (JStr ''Registration failed.'')], Returned))"

definition handleRegister :: "world \<Rightarrow> reply \<Rightarrow> thrown block" where
  "handleRegister w rp =
     and_then ([PreventDefault, SetError (JStr [])], Returned)
       (catching (register_body w rp) register_catch)"

section \<open>The rendered forms\<close>

text \<open>
  Both components render a form with two controlled inputs, each bound to a state cell
  and each carrying the \<^verbatim>\<open>required\<close> attribute, a submit button, and a link below the
  form. The browser's constraint validation stands between the button and the
  \<^verbatim>\<open>onSubmit\<close> handler: a submission by the user fires the submit event only when no
  required input has an empty value.
\<close>

datatype field = UserIdField | PasswordField

record input_elem =
  input_type :: string
  bound_to :: field
  required :: bool

definition login_inputs :: "input_elem list" where
  "login_inputs =
     [\<lparr>input_type = ''text'', bound_to = UserIdField, required = True\<rparr>,
      \<lparr>input_type = ''password'', bound_to = PasswordField, required = True\<rparr>]"

definition register_inputs :: "input_elem list" where
  "register_inputs =
     [\<lparr>input_type = ''text'', bound_to = UserIdField, required = True\<rparr>,
      \<lparr>input_type = ''password'', bound_to = PasswordField, required = True\<rparr>]"

fun field_value :: "world \<Rightarrow> field \<Rightarrow> string" where
  "field_value w UserIdField = userId w"
| "field_value w PasswordField = password w"

definition value_missing :: "world \<Rightarrow> input_elem \<Rightarrow> bool" where
  "value_missing w i = (required i \<and> field_value w (bound_to i) = [])"

fun form_valid :: "world \<Rightarrow> input_elem list \<Rightarrow> bool" where
  "form_valid w [] = True"
| "form_valid w (i # is) = (if value_missing w i then False else form_valid w is)"

text \<open>What the user can do on each screen, and the effects that follow. A submission
  carries the outcome the request will have, should one be sent.\<close>

datatype login_event =
    LoginSubmit reply
  | LoginChangeUserId string
  | LoginChangePassword string
  | LoginClickSignUp

datatype register_event =
    RegisterSubmit reply
  | RegisterChangeUserId string
  | RegisterChangePassword string
  | RegisterClickLogIn

fun Login :: "world \<Rightarrow> login_event \<Rightarrow> effect list" where
  "Login w (LoginSubmit rp) =
     (if form_valid w login_inputs then fst (handleLogin w rp) else [])"
| "Login w (LoginChangeUserId v) = [SetUserId v]"
| "Login w (LoginChangePassword v) = [SetPassword v]"
| "Login w LoginClickSignUp = [Navigate ''/register'']"

fun Register :: "world \<Rightarrow> register_event \<Rightarrow> effect list" where
  "Register w (RegisterSubmit rp) =
     (if form_valid w register_inputs then fst (handleRegister w rp) else [])"
| "Register w (RegisterChangeUserId v) = [SetUserId v]"
| "Register w (RegisterChangePassword v) = [SetPassword v]"
| "Register w RegisterClickLogIn = [Navigate ''/'']"

section \<open>Observations on a sequence of effects\<close>


fun before_first_post :: "effect list \<Rightarrow> effect list" where
  "before_first_post [] = []"
| "before_first_post (HttpPost url body # es) = []"
| "before_first_post (e # es) = e # before_first_post es"

section \<open>Sample inputs\<close>

text \<open>Two users in front of the two screens: one on the login screen at route
  \<^verbatim>\<open>/\<close> with an error still displayed from an earlier attempt, one on the
  registration screen at route \<^verbatim>\<open>/register\<close>; and the two answers of a storage, one that
  takes every write and one that is full.\<close>

definition accepting :: "string \<Rightarrow> string \<Rightarrow> dom_exception option" where
  "accepting k v = None"

definition full_storage :: "string \<Rightarrow> string \<Rightarrow> dom_exception option" where
  "full_storage k v = Some QuotaExceededError"

definition bob :: world where
  "bob = \<lparr>userId = ''bob'', password = ''x'', error = JStr ''Login failed.'',
          storage = Map.empty, storage_refuses = accepting, route = ''/'', alerts = []\<rparr>"

definition alice :: world where
  "alice = \<lparr>userId = ''alice'', password = ''pw123'', error = JStr [],
            storage = Map.empty, storage_refuses = accepting, route = ''/register'',
            alerts = []\<rparr>"

section \<open>Both handlers, path by path\<close>

text \<open>
  A state cell is written when its setter is called, and the handler reads the cells it
  closed over when it was created: the world \<open>w\<close> it is given. The login handler has
  three paths (the request fails; it succeeds and the storage refuses the write; it
  succeeds and the write is taken), the registration handler two.
\<close>

lemma axios_post_2xx: "is_2xx r \<Longrightarrow> axios_post (Response r) = Inr r"
  by (simp add: axios_post_def)

lemma handleLogin_resolved:
  "axios_post rp = Inr r \<Longrightarrow> storage_refuses w ''userId'' (userId w) = None \<Longrightarrow>
   handleLogin w rp =
     ([PreventDefault, SetError (JStr []), HttpPost login_url (credentials w),
       SetItem ''userId'' (userId w), Navigate ''/profile''], Returned)"
  by (simp add: handleLogin_def login_body_def setItem_def and_then_def catching_def)

lemma handleLogin_refused:
  "axios_post rp = Inr r \<Longrightarrow> storage_refuses w ''userId'' (userId w) = Some e \<Longrightarrow>
   handleLogin w rp =
     ([PreventDefault, SetError (JStr []), HttpPost login_url (credentials w),
       SetError (JStr ''Login failed.'')], Returned)"
  by (simp add: handleLogin_def login_body_def login_catch_def setItem_def and_then_def
      catching_def)

lemma handleLogin_rejected:
  "axios_post rp = Inl err \<Longrightarrow>
   handleLogin w rp =
     ([PreventDefault, SetError (JStr []), HttpPost login_url (credentials w),
       SetError (if truthy (err_detail err) then err_detail err else JStr ''Login failed.'')],
      Returned)"
  by (simp add: handleLogin_def login_body_def login_catch_def and_then_def catching_def)

lemma handleRegister_resolved:
  "axios_post rp = Inr r \<Longrightarrow>
   handleRegister w rp =
     ([PreventDefault, SetError (JStr []), HttpPost register_url (credentials w),
       Alert ''Registration successful! Please log in.'', Navigate ''/''], Returned)"
  by (simp add: handleRegister_def register_body_def and_then_def catching_def)

lemma handleRegister_rejected:
  "axios_post rp = Inl err \<Longrightarrow>
   handleRegister w rp =
     ([PreventDefault, SetError (JStr []), HttpPost register_url (credentials w),
       SetError (if truthy (err_detail err) then err_detail err
                 else JStr ''Registration failed.'')],
      Returned)"
  by (simp add: handleRegister_def register_body_def register_catch_def and_then_def
      catching_def)

lemma form_valid_login: "form_valid w login_inputs = (userId w \<noteq> [] \<and> password w \<noteq> [])"
  by (simp add: login_inputs_def value_missing_def)

lemma form_valid_register:
  "form_valid w register_inputs = (userId w \<noteq> [] \<and> password w \<noteq> [])"
  by (simp add: register_inputs_def value_missing_def)

lemma storage_run: "storage_writes es = [] \<Longrightarrow> storage (run w es) = storage w"
  by (induction es arbitrary: w rule: storage_writes.induct) simp_all

section \<open>Properties of the screens\<close>

text \<open>
  C1, as stated, does not hold: the storage write sits inside the \<^verbatim>\<open>try\<close> block, so
  when the storage refuses it (here: the quota is exceeded) after a reply with status
  200, the exception is caught, nothing is stored under \<^verbatim>\<open>userId\<close>, the navigation is
  not reached and the screen shows its generic failure message.
\<close>

theorem full_storage_counterexample:
  "userId (bob\<lparr>storage_refuses := full_storage\<rparr>) \<noteq> []
 \<and> password (bob\<lparr>storage_refuses := full_storage\<rparr>) \<noteq> []
 \<and> is_2xx \<lparr>status = 200, data = JObj []\<rparr>
 \<and> storage (run (bob\<lparr>storage_refuses := full_storage\<rparr>)
      (Login (bob\<lparr>storage_refuses := full_storage\<rparr>)
        (LoginSubmit (Response \<lparr>status = 200, data = JObj []\<rparr>)))) ''userId'' = None
 \<and> route (run (bob\<lparr>storage_refuses := full_storage\<rparr>)
      (Login (bob\<lparr>storage_refuses := full_storage\<rparr>)
        (LoginSubmit (Response \<lparr>status = 200, data = JObj []\<rparr>)))) = ''/''
 \<and> error (run (bob\<lparr>storage_refuses := full_storage\<rparr>)
      (Login (bob\<lparr>storage_refuses := full_storage\<rparr>)
        (LoginSubmit (Response \<lparr>status = 200, data = JObj []\<rparr>)))) = JStr ''Login failed.''"
  by (simp add: bob_def full_storage_def is_2xx_def login_inputs_def value_missing_def
      handleLogin_def login_body_def login_catch_def setItem_def and_then_def catching_def
      axios_post_def)

text \<open>
  C1, amended. With a non-empty identifier and a non-empty secret, a login submission
  whose request is answered with a status from 200 to 299, and whose write to the
  local storage is taken, leaves the identifier, as submitted, under the key
  \<^verbatim>\<open>userId\<close> of the local storage, and the route is \<^verbatim>\<open>/profile\<close>.
\<close>

theorem login_success_stores_and_navigates:
  assumes "userId w \<noteq> []" and "password w \<noteq> []" and "is_2xx r"
    and "storage_refuses w ''userId'' (userId w) = None"
  shows "storage (run w (Login w (LoginSubmit (Response r)))) ''userId'' = Some (userId w)
       \<and> route (run w (Login w (LoginSubmit (Response r)))) = ''/profile''"
  using assms by (simp add: form_valid_login handleLogin_resolved [OF axios_post_2xx])

theorem login_success_stores_and_navigates_witness:
  "storage (run bob (Login bob (LoginSubmit (Response \<lparr>status = 200, data = JObj []\<rparr>))))
     ''userId'' = Some ''bob''
   \<and> route (run bob (Login bob (LoginSubmit (Response \<lparr>status = 200, data = JObj []\<rparr>))))
     = ''/profile''"
  using login_success_stores_and_navigates
    [of bob "\<lparr>status = 200, data = JObj []\<rparr>"]
  by (simp add: bob_def is_2xx_def accepting_def)

text \<open>
  C2, as stated, does not hold: a failed request whose body carries the string field
  \<^verbatim>\<open>detail\<close> with the empty string as its value displays the generic message, not the
  empty string, since the handler tests \<^verbatim>\<open>detail\<close> for truthiness.
\<close>

theorem empty_detail_counterexample:
  "error (run bob (fst (handleLogin bob
      (Response \<lparr>status = 400, data = JObj [(''detail'', JStr [])]\<rparr>))))
     = JStr ''Login failed.''
   \<and> error (run bob (fst (handleLogin bob
      (Response \<lparr>status = 400, data = JObj [(''detail'', JStr [])]\<rparr>))))
     \<noteq> JStr []"
  by (simp add: handleLogin_def login_body_def login_catch_def and_then_def catching_def
      axios_post_def is_2xx_def err_detail_def bob_def)

text \<open>
  C2, amended. For every failed request on either screen: when the body of the reply
  carries a string field \<^verbatim>\<open>detail\<close> with a non-empty value \<open>X\<close>, the error cell is
  exactly \<open>X\<close>; when there is no reply at all, when the reply has no \<^verbatim>\<open>detail\<close>, and
  when its \<^verbatim>\<open>detail\<close> is the empty string, the error cell is the generic message of the
  screen (\<^verbatim>\<open>Login failed.\<close>, \<^verbatim>\<open>Registration failed.\<close>).
\<close>

theorem failure_message:
  "(rp = NoResponse \<longrightarrow>
      error (run w (fst (handleLogin w rp))) = JStr ''Login failed.''
    \<and> error (run w (fst (handleRegister w rp))) = JStr ''Registration failed.'')
 \<and> (rp = Response r \<and> \<not> is_2xx r \<and> data r = JObj kvs
      \<and> map_of kvs ''detail'' = Some (JStr X) \<and> X \<noteq> [] \<longrightarrow>
      error (run w (fst (handleLogin w rp))) = JStr X
    \<and> error (run w (fst (handleRegister w rp))) = JStr X)
 \<and> (rp = Response r \<and> \<not> is_2xx r
      \<and> (opt_detail (data r) = JUndefined \<or> opt_detail (data r) = JStr []) \<longrightarrow>
      error (run w (fst (handleLogin w rp))) = JStr ''Login failed.''
    \<and> error (run w (fst (handleRegister w rp))) = JStr ''Registration failed.'')"
proof (intro conjI impI)
  assume "rp = NoResponse"
  then have rej: "axios_post rp = Inl \<lparr>response = None\<rparr>"
    by (simp add: axios_post_def)
  show "error (run w (fst (handleLogin w rp))) = JStr ''Login failed.''"
    by (simp add: handleLogin_rejected [OF rej] err_detail_def)
  show "error (run w (fst (handleRegister w rp))) = JStr ''Registration failed.''"
    by (simp add: handleRegister_rejected [OF rej] err_detail_def)
next
  assume a: "rp = Response r \<and> \<not> is_2xx r \<and> data r = JObj kvs
      \<and> map_of kvs ''detail'' = Some (JStr X) \<and> X \<noteq> []"
  then have rej: "axios_post rp = Inl \<lparr>response = Some r\<rparr>"
    by (simp add: axios_post_def)
  from a have d: "err_detail \<lparr>response = Some r\<rparr> = JStr X"
    by (simp add: err_detail_def)
  from a have t: "truthy (JStr X)"
    by simp
  show "error (run w (fst (handleLogin w rp))) = JStr X"
    using t by (simp add: handleLogin_rejected [OF rej] d)
  show "error (run w (fst (handleRegister w rp))) = JStr X"
    using t by (simp add: handleRegister_rejected [OF rej] d)
next
  assume a: "rp = Response r \<and> \<not> is_2xx r
      \<and> (opt_detail (data r) = JUndefined \<or> opt_detail (data r) = JStr [])"
  then have rej: "axios_post rp = Inl \<lparr>response = Some r\<rparr>"
    by (simp add: axios_post_def)
  from a have d: "\<not> truthy (err_detail \<lparr>response = Some r\<rparr>)"
    by (auto simp: err_detail_def)
  show "error (run w (fst (handleLogin w rp))) = JStr ''Login failed.''"
    by (simp add: handleLogin_rejected [OF rej] d)
  show "error (run w (fst (handleRegister w rp))) = JStr ''Registration failed.''"
    by (simp add: handleRegister_rejected [OF rej] d)
qed

theorem failure_message_witness:
  "error (run alice (fst (handleRegister alice NoResponse))) = JStr ''Registration failed.''
 \<and> error (run alice (fst (handleRegister alice
      (Response \<lparr>status = 400, data = JObj [(''detail'', JStr ''user exists'')]\<rparr>))))
     = JStr ''user exists''
 \<and> error (run bob (fst (handleLogin bob (Response \<lparr>status = 500, data = JStr []\<rparr>))))
     = JStr ''Login failed.''"
  using failure_message [of NoResponse alice "\<lparr>status = 0, data = JNull\<rparr>" "[]" "[]"]
    failure_message [of "Response \<lparr>status = 400, data = JObj [(''detail'', JStr ''user exists'')]\<rparr>"
      alice "\<lparr>status = 400, data = JObj [(''detail'', JStr ''user exists'')]\<rparr>"
      "[(''detail'', JStr ''user exists'')]" "''user exists''"]
    failure_message [of "Response \<lparr>status = 500, data = JStr []\<rparr>" bob
      "\<lparr>status = 500, data = JStr []\<rparr>" "[]" "[]"]
  by (simp add: is_2xx_def)

text \<open>
  C3. On either screen and whatever the reply will be, the handler first prevents the
  default action, then sets the error cell to the empty string, then issues the
  request; in any prior state \<open>w0\<close>, the effects that precede the request leave the
  error cell empty.
\<close>

theorem error_cleared_before_request:
  "take 3 (fst (handleLogin w rp))
     = [PreventDefault, SetError (JStr []), HttpPost ''http://127.0.0.1:8000/login'' (credentials w)]
 \<and> error (run w0 (before_first_post (fst (handleLogin w rp)))) = JStr []
 \<and> take 3 (fst (handleRegister w rp))
     = [PreventDefault, SetError (JStr []), HttpPost ''http://127.0.0.1:8000/register'' (credentials w)]
 \<and> error (run w0 (before_first_post (fst (handleRegister w rp)))) = JStr []"
  by (cases "axios_post rp"; cases "storage_refuses w ''userId'' (userId w)")
    (simp_all add: handleLogin_rejected handleLogin_resolved handleLogin_refused
      handleRegister_rejected handleRegister_resolved login_url_def register_url_def)

text \<open>
  C4. When the request of a registration submission is answered with a status from 200
  to 299, the handler shows one alert, the confirmation, and then navigates to the
  login screen at route \<^verbatim>\<open>/\<close>.
\<close>

theorem register_success_confirms_and_navigates:
  assumes "is_2xx r"
  shows "fst (handleRegister w (Response r)) =
           [PreventDefault, SetError (JStr []),
            HttpPost ''http://127.0.0.1:8000/register'' (credentials w),
            Alert ''Registration successful! Please log in.'', Navigate ''/'']
       \<and> alerts (run w (fst (handleRegister w (Response r))))
           = alerts w @ [''Registration successful! Please log in.'']
       \<and> route (run w (fst (handleRegister w (Response r)))) = ''/''"
  by (simp add: handleRegister_resolved [OF axios_post_2xx [OF assms]] register_url_def)

theorem register_success_confirms_and_navigates_witness:
  "alerts (run alice (fst (handleRegister alice (Response \<lparr>status = 201, data = JNull\<rparr>))))
     = [''Registration successful! Please log in.'']
   \<and> route (run alice (fst (handleRegister alice (Response \<lparr>status = 201, data = JNull\<rparr>))))
     = ''/''"
  using register_success_confirms_and_navigates [of "\<lparr>status = 201, data = JNull\<rparr>" alice]
  by (simp add: is_2xx_def alice_def)

text \<open>
  C5. With a non-empty identifier and a non-empty secret, a submission on either
  screen issues exactly one request, to the fixed address of that screen, and its body
  is the identifier under \<^verbatim>\<open>user_id\<close> and the secret under \<^verbatim>\<open>password\<close>, as entered.
\<close>

theorem one_post_per_submission:
  assumes "userId w \<noteq> []" and "password w \<noteq> []"
  shows "posts (Login w (LoginSubmit rp)) =
           [(''http://127.0.0.1:8000/login'',
             [(''user_id'', JStr (userId w)), (''password'', JStr (password w))])]
       \<and> posts (Register w (RegisterSubmit rp)) =
           [(''http://127.0.0.1:8000/register'',
             [(''user_id'', JStr (userId w)), (''password'', JStr (password w))])]"
  using assms
  by (cases "axios_post rp"; cases "storage_refuses w ''userId'' (userId w)")
    (simp_all add: form_valid_login form_valid_register handleLogin_rejected
      handleLogin_resolved handleLogin_refused handleRegister_rejected
      handleRegister_resolved login_url_def register_url_def credentials_def)

theorem one_post_per_submission_witness:
  "posts (Login bob (LoginSubmit NoResponse)) =
     [(''http://127.0.0.1:8000/login'', [(''user_id'', JStr ''bob''), (''password'', JStr ''x'')])]
   \<and> posts (Register alice (RegisterSubmit (Response \<lparr>status = 201, data = JNull\<rparr>))) =
     [(''http://127.0.0.1:8000/register'',
       [(''user_id'', JStr ''alice''), (''password'', JStr ''pw123'')])]"
  using one_post_per_submission [of bob NoResponse]
    one_post_per_submission [of alice "Response \<lparr>status = 201, data = JNull\<rparr>"]
  by (simp add: bob_def alice_def)

text \<open>
  C6. A click on the link below the login form navigates to \<^verbatim>\<open>/register\<close> and does
  nothing else: no request is issued and no state cell changes.
\<close>

theorem sign_up_link:
  "Login w LoginClickSignUp = [Navigate ''/register'']
 \<and> posts (Login w LoginClickSignUp) = []
 \<and> run w (Login w LoginClickSignUp) = w\<lparr>route := ''/register''\<rparr>"
  by simp

text \<open>
  C7. A submission attempt on either screen with an empty identifier or an empty secret
  issues no request: both inputs are required, so the submit event is not fired and
  the handler is not entered.
\<close>

theorem empty_field_blocks_request:
  assumes "userId w = [] \<or> password w = []"
  shows "Login w (LoginSubmit rp) = [] \<and> posts (Login w (LoginSubmit rp)) = []
       \<and> Register w (RegisterSubmit rp) = [] \<and> posts (Register w (RegisterSubmit rp)) = []"
  using assms by (auto simp: form_valid_login form_valid_register)

theorem empty_field_blocks_request_witness:
  "posts (Login (bob\<lparr>password := []\<rparr>) (LoginSubmit (Response \<lparr>status = 200, data = JNull\<rparr>))) = []
 \<and> posts (Register (alice\<lparr>userId := []\<rparr>) (RegisterSubmit NoResponse)) = []"
  using empty_field_blocks_request [of "bob\<lparr>password := []\<rparr>"
      "Response \<lparr>status = 200, data = JNull\<rparr>"]
    empty_field_blocks_request [of "alice\<lparr>userId := []\<rparr>" NoResponse]
  by simp

text \<open>
  The check lives in the form alone. The handler has none of its own: called with an
  empty secret, it would send the request.
\<close>

lemma handler_does_not_check_fields:
  "posts (fst (handleLogin (bob\<lparr>password := []\<rparr>) NoResponse)) =
     [(login_url, [(''user_id'', JStr ''bob''), (''password'', JStr [])])]"
  by (simp add: handleLogin_def login_body_def login_catch_def and_then_def catching_def
      axios_post_def credentials_def bob_def)

text \<open>
  C8. When the request fails, on either screen, the handler completes normally (the
  failure is caught and nothing is thrown out of the handler) and the submission has
  issued exactly one request.
\<close>

theorem failure_caught_no_retry:
  assumes "axios_post rp = Inl err"
  shows "snd (handleLogin w rp) = Returned \<and> length (posts (fst (handleLogin w rp))) = 1
       \<and> snd (handleRegister w rp) = Returned
       \<and> length (posts (fst (handleRegister w rp))) = 1"
  by (simp add: handleLogin_rejected [OF assms] handleRegister_rejected [OF assms])

theorem failure_caught_no_retry_witness:
  "snd (handleLogin bob NoResponse) = Returned
 \<and> length (posts (fst (handleLogin bob NoResponse))) = 1
 \<and> snd (handleRegister bob NoResponse) = Returned
 \<and> length (posts (fst (handleRegister bob NoResponse))) = 1"
  using failure_caught_no_retry [of NoResponse "\<lparr>response = None\<rparr>" bob]
  by (simp add: axios_post_def)



text \<open>
  C10. The registration screen writes nothing to the local storage, in its handler on
  any reply and on any other event, and its storage is unchanged. The login handler
  writes exactly the identifier under \<^verbatim>\<open>userId\<close> when the request succeeds (and the
  storage takes the write) and nothing otherwise; no event of the login screen writes
  anything else.
\<close>

theorem only_storage_write:
  "storage_writes (fst (handleRegister w rp)) = []
 \<and> storage_writes (Register w rv) = []
 \<and> storage (run w (Register w rv)) = storage w
 \<and> storage_writes (fst (handleLogin w rp)) =
     (case axios_post rp of
        Inl err \<Rightarrow> []
      | Inr r \<Rightarrow>
          (case storage_refuses w ''userId'' (userId w) of
             Some e \<Rightarrow> []
           | None \<Rightarrow> [(''userId'', userId w)]))
 \<and> (storage_writes (Login w lv) = []
      \<or> storage_writes (Login w lv) = [(''userId'', userId w)])"
proof -
  have reg: "storage_writes (fst (handleRegister w rp')) = []" for rp'
    by (cases "axios_post rp'") (simp_all add: handleRegister_rejected handleRegister_resolved)
  have log: "storage_writes (fst (handleLogin w rp')) =
     (case axios_post rp' of
        Inl err \<Rightarrow> []
      | Inr r \<Rightarrow>
          (case storage_refuses w ''userId'' (userId w) of
             Some e \<Rightarrow> []
           | None \<Rightarrow> [(''userId'', userId w)]))" for rp'
    by (cases "axios_post rp'"; cases "storage_refuses w ''userId'' (userId w)")
      (simp_all add: handleLogin_rejected handleLogin_resolved handleLogin_refused)
  have rv: "storage_writes (Register w rv) = []"
    by (cases rv) (simp_all add: reg)
  have lv: "storage_writes (Login w lv) = []
      \<or> storage_writes (Login w lv) = [(''userId'', userId w)]"
    by (cases lv) (auto simp: log split: sum.splits option.splits)
  from reg log rv lv storage_run [OF rv] show ?thesis by blast
qed

end
